theory Spec2Isabelle
  imports Complex_Main "HOL-Library.Word"
begin

section \<open>JavaScript values\<close>

text \<open>
  A JavaScript string is a sequence of UTF-16 code units.  Source literals are ASCII and
  are written with \<open>str\<close>.
\<close>

type_synonym js_string = "16 word list"

definition str :: "string \<Rightarrow> js_string" where
  "str s = map of_char s"

text \<open>
  \<open>String.prototype.trim\<close> removes white space and line terminators from both ends:
  TAB, LF, VT, FF, CR, SP, NBSP, U+1680, U+2000..U+200A, U+2028, U+2029, U+202F, U+205F,
  U+3000 and U+FEFF.
\<close>

definition is_white_space :: "16 word \<Rightarrow> bool" where
  "is_white_space c \<longleftrightarrow>
     c = 0x09 \<or> c = 0x0A \<or> c = 0x0B \<or> c = 0x0C \<or> c = 0x0D \<or> c = 0x20 \<or> c = 0xA0 \<or>
     c = 0x1680 \<or> (0x2000 \<le> c \<and> c \<le> 0x200A) \<or> c = 0x2028 \<or> c = 0x2029 \<or>
     c = 0x202F \<or> c = 0x205F \<or> c = 0x3000 \<or> c = 0xFEFF"

definition trim :: "js_string \<Rightarrow> js_string" where
  "trim s = rev (dropWhile is_white_space (rev (dropWhile is_white_space s)))"

text \<open>
  A number is observed here only through its truthiness; \<open>-0\<close> is identified with
  \<open>0\<close> (both are falsy).
\<close>

datatype js_number = Finite rat | PosInfinity | NegInfinity | NaN

datatype jsval =
    JUndefined
  | JNull
  | JBool bool
  | JNum js_number
  | JStr js_string
  | JArr "jsval list"
  | JObj "(js_string \<times> jsval) list"

datatype js_error =
    TypeError
  | SyntaxError
  | SecurityError
  | QuotaExceededError
  | Error js_string

fun truthy :: "jsval \<Rightarrow> bool" where
  "truthy JUndefined = False"
| "truthy JNull = False"
| "truthy (JBool b) = b"
| "truthy (JNum n) = (n \<noteq> Finite 0 \<and> n \<noteq> NaN)"
| "truthy (JStr s) = (s \<noteq> [])"
| "truthy (JArr _) = True"
| "truthy (JObj _) = True"

text \<open>The operator \<open>a || b\<close>.\<close>

definition js_or :: "jsval \<Rightarrow> jsval \<Rightarrow> jsval" where
  "js_or a b = (if truthy a then a else b)"

text \<open>
  Property read \<open>v.k\<close> for a key \<open>k\<close> that is no built-in property of strings,
  numbers, booleans or arrays (every key the source reads is of that kind): it throws a
  TypeError on \<open>undefined\<close> and \<open>null\<close>, and yields \<open>undefined\<close> where
  the property is missing.  An object carries its own properties as an association list.
\<close>

fun get_prop :: "jsval \<Rightarrow> js_string \<Rightarrow> js_error + jsval" where
  "get_prop JUndefined k = Inl TypeError"
| "get_prop JNull k = Inl TypeError"
| "get_prop (JObj kvs) k = (case map_of kvs k of None \<Rightarrow> Inr JUndefined | Some v \<Rightarrow> Inr v)"
| "get_prop _ k = Inr JUndefined"

text \<open>Optional chaining \<open>v?.k\<close>.\<close>

fun get_prop_opt :: "jsval \<Rightarrow> js_string \<Rightarrow> js_error + jsval" where
  "get_prop_opt JUndefined k = Inr JUndefined"
| "get_prop_opt JNull k = Inr JUndefined"
| "get_prop_opt v k = get_prop v k"

section \<open>The browser: local storage and fetch\<close>

text \<open>
  \<open>localStorage\<close>: a dictionary of strings.  Touching it can throw (a SecurityError
  when storage is blocked), and \<open>setItem\<close> can throw a QuotaExceededError.
\<close>

record local_storage =
  items :: "js_string \<rightharpoonup> js_string"
  accessible :: bool
  quota_exceeded :: bool

definition getItem :: "local_storage \<Rightarrow> js_string \<Rightarrow> js_error + js_string option" where
  "getItem ls k = (if accessible ls then Inr (items ls k) else Inl SecurityError)"

definition setItem :: "local_storage \<Rightarrow> js_string \<Rightarrow> js_string \<Rightarrow> js_error + local_storage" where
  "setItem ls k v =
     (if \<not> accessible ls then Inl SecurityError
      else if quota_exceeded ls then Inl QuotaExceededError
      else Inr (ls\<lparr>items := (items ls)(k \<mapsto> v)\<rparr>))"

definition removeItem :: "local_storage \<Rightarrow> js_string \<Rightarrow> js_error + local_storage" where
  "removeItem ls k =
     (if accessible ls then Inr (ls\<lparr>items := (items ls)(k := None)\<rparr>) else Inl SecurityError)"

datatype http_verb = GET | POST | PATCH

text \<open>
  The argument of \<open>fetch\<close>.  \<open>body\<close> is the value handed to \<open>JSON.stringify\<close>.
\<close>

record request =
  url :: js_string
  http_method :: http_verb
  cache :: "js_string option"
  headers :: "(js_string \<times> js_string) list"
  body :: "jsval option"

text \<open>
  What \<open>fetch\<close> resolves to.  \<open>body_json\<close> and \<open>body_text\<close> are the results
  of \<open>response.json()\<close> and \<open>response.text()\<close>, each of which may reject.
\<close>

record response =
  ok :: bool
  status :: nat
  statusText :: js_string
  body_json :: "js_error + jsval"
  body_text :: "js_error + js_string"

datatype fetch_outcome = Rejected js_error | Response response

type_synonym fetch = "request \<Rightarrow> fetch_outcome"

section \<open>Settings (src/ui/lib/settings.ts)\<close>

record Settings =
  togetherApiKey :: jsval
  groqApiKey :: jsval
  serverUrl :: js_string

text \<open>\<open>Partial<Settings>\<close>: every field may be missing.\<close>

record partial_settings =
  togetherApiKey_opt :: "js_string option"
  groqApiKey_opt :: "js_string option"
  serverUrl_opt :: "js_string option"

text \<open>
  The state the module runs in: \<open>window\<close> is \<open>None\<close> where
  \<open>typeof window === 'undefined'\<close> (server side), \<open>settingsCache\<close> is the module
  variable, \<open>sent\<close> is the list of requests handed to \<open>fetch\<close> so far.
  Console output is left out.
\<close>

record world =
  window :: "local_storage option"
  settingsCache :: "Settings option"
  sent :: "request list"

text \<open>
  \<open>process.env.NEXT_PUBLIC_API_URL || 'http://localhost:8000'\<close>; the environment
  variable is a parameter.
\<close>

definition DEFAULT_SERVER_URL :: "js_string option \<Rightarrow> js_string" where
  "DEFAULT_SERVER_URL env =
     (case env of None \<Rightarrow> str ''http://localhost:8000''
      | Some u \<Rightarrow> if u = [] then str ''http://localhost:8000'' else u)"

definition SERVER_URL_KEY :: js_string where
  "SERVER_URL_KEY = str ''contextos_server_url''"

definition getStoredServerUrl :: "js_string option \<Rightarrow> world \<Rightarrow> js_string" where
  "getStoredServerUrl env w =
     (case window w of
        None \<Rightarrow> DEFAULT_SERVER_URL env
      | Some ls \<Rightarrow>
          (case getItem ls SERVER_URL_KEY of
             Inl e \<Rightarrow> DEFAULT_SERVER_URL env
           | Inr None \<Rightarrow> DEFAULT_SERVER_URL env
           | Inr (Some stored) \<Rightarrow>
               if stored \<noteq> [] \<and> trim stored \<noteq> [] then trim stored
               else DEFAULT_SERVER_URL env))"

definition storeServerUrl :: "world \<Rightarrow> js_string \<Rightarrow> world" where
  "storeServerUrl w u =
     (case window w of
        None \<Rightarrow> w
      | Some ls \<Rightarrow>
          (case setItem ls SERVER_URL_KEY (trim u) of
             Inl e \<Rightarrow> w
           | Inr ls' \<Rightarrow> w\<lparr>window := Some ls'\<rparr>))"

text \<open>Handing a request to \<open>fetch\<close> records it.\<close>

definition issue :: "world \<Rightarrow> request \<Rightarrow> world" where
  "issue w req = w\<lparr>sent := sent w @ [req]\<rparr>"

definition loadSettings_request :: "js_string \<Rightarrow> request" where
  "loadSettings_request server_url =
     \<lparr>url = server_url @ str ''/api/settings'', http_method = GET,
      cache = Some (str ''no-cache''), headers = [], body = None\<rparr>"

text \<open>The \<open>try\<close> block of \<open>loadSettings\<close>.\<close>

definition loadSettings_try :: "js_string option \<Rightarrow> fetch \<Rightarrow> world \<Rightarrow> (js_error + Settings) \<times> world" where
  "loadSettings_try env fetch w =
     (let server_url = getStoredServerUrl env w;
          req = loadSettings_request server_url;
          w1 = issue w req
      in case fetch req of
           Rejected e \<Rightarrow> (Inl e, w1)
         | Response r \<Rightarrow>
             if \<not> ok r then (Inl (Error (str ''Failed to load settings: '' @ statusText r)), w1)
             else (case body_json r of
                 Inl e \<Rightarrow> (Inl e, w1)
               | Inr backendSettings \<Rightarrow>
                   (case get_prop backendSettings (str ''togetherApiKey'') of
                      Inl e \<Rightarrow> (Inl e, w1)
                    | Inr t \<Rightarrow>
                        (case get_prop backendSettings (str ''groqApiKey'') of
                           Inl e \<Rightarrow> (Inl e, w1)
                         | Inr g \<Rightarrow>
                             (let s = \<lparr>togetherApiKey = js_or t (JStr []),
                                       groqApiKey = js_or g (JStr []),
                                       serverUrl = server_url\<rparr>
                              in (Inr s, w1\<lparr>settingsCache := Some s\<rparr>))))))"

text \<open>\<open>loadSettings\<close>: the \<open>catch\<close> block returns the fallback.\<close>

definition loadSettings :: "js_string option \<Rightarrow> fetch \<Rightarrow> world \<Rightarrow> (js_error + Settings) \<times> world" where
  "loadSettings env fetch w =
     (case loadSettings_try env fetch w of
        (Inr s, w1) \<Rightarrow> (Inr s, w1)
      | (Inl e, w1) \<Rightarrow>
          (Inr \<lparr>togetherApiKey = JStr [], groqApiKey = JStr [],
                serverUrl = getStoredServerUrl env w1\<rparr>, w1))"

text \<open>\<open>backendUpdates\<close>: the fields of the update other than \<open>serverUrl\<close>.\<close>

definition backendUpdates :: "partial_settings \<Rightarrow> (js_string \<times> jsval) list" where
  "backendUpdates updates =
     (case togetherApiKey_opt updates of None \<Rightarrow> []
      | Some t \<Rightarrow> [(str ''togetherApiKey'', JStr t)]) @
     (case groqApiKey_opt updates of None \<Rightarrow> []
      | Some g \<Rightarrow> [(str ''groqApiKey'', JStr g)])"

definition saveSettings_request :: "js_string \<Rightarrow> partial_settings \<Rightarrow> request" where
  "saveSettings_request targetUrl updates =
     \<lparr>url = targetUrl @ str ''/api/settings'', http_method = POST, cache = None,
      headers = [(str ''Content-Type'', str ''application/json'')],
      body = Some (JObj (backendUpdates updates))\<rparr>"

text \<open>\<open>targetUrl\<close> and the state after the first \<open>if\<close> of \<open>saveSettings\<close>.\<close>

definition saveSettings_target :: "js_string option \<Rightarrow> world \<Rightarrow> partial_settings \<Rightarrow> js_string \<times> world" where
  "saveSettings_target env w updates =
     (case serverUrl_opt updates of
        Some u \<Rightarrow>
          (let targetUrl = (if trim u \<noteq> [] then trim u else DEFAULT_SERVER_URL env)
           in (targetUrl, storeServerUrl w targetUrl))
      | None \<Rightarrow> (getStoredServerUrl env w, w))"

text \<open>
  \<open>settingsCache?.togetherApiKey\<close> and \<open>settingsCache?.groqApiKey\<close>.
\<close>

definition cached_field :: "Settings option \<Rightarrow> (Settings \<Rightarrow> jsval) \<Rightarrow> jsval" where
  "cached_field c f = (case c of None \<Rightarrow> JUndefined | Some s \<Rightarrow> f s)"

text \<open>
  \<open>result.settings?.k || backendUpdates.k || settingsCache?.k || ''\<close>; reading
  \<open>result.settings\<close> throws when \<open>result\<close> is \<open>null\<close>.
\<close>

definition merged_key :: "jsval \<Rightarrow> js_string \<Rightarrow> partial_settings \<Rightarrow> jsval \<Rightarrow> js_error + jsval" where
  "merged_key result k updates cached =
     (case get_prop result (str ''settings'') of
        Inl e \<Rightarrow> Inl e
      | Inr settings \<Rightarrow>
          (case get_prop_opt settings k of
             Inl e \<Rightarrow> Inl e
           | Inr v \<Rightarrow>
               (case get_prop (JObj (backendUpdates updates)) k of
                  Inl e \<Rightarrow> Inl e
                | Inr u \<Rightarrow> Inr (js_or (js_or (js_or v u) cached) (JStr [])))))"

text \<open>
  \<open>saveSettings\<close>: the \<open>catch\<close> block throws the error again, so the \<open>try\<close>
  block is the whole function.
\<close>

definition saveSettings :: "js_string option \<Rightarrow> fetch \<Rightarrow> world \<Rightarrow> partial_settings \<Rightarrow> (js_error + Settings) \<times> world" where
  "saveSettings env fetch w updates =
     (case saveSettings_target env w updates of
        (targetUrl, w0) \<Rightarrow>
          (let req = saveSettings_request targetUrl updates;
               w1 = issue w0 req
           in case fetch req of
                Rejected e \<Rightarrow> (Inl e, w1)
              | Response r \<Rightarrow>
                  if \<not> ok r then (Inl (Error (str ''Failed to save settings: '' @ statusText r)), w1)
                  else (case body_json r of
                      Inl e \<Rightarrow> (Inl e, w1)
                    | Inr result \<Rightarrow>
                        (case merged_key result (str ''togetherApiKey'') updates
                                (cached_field (settingsCache w1) togetherApiKey) of
                           Inl e \<Rightarrow> (Inl e, w1)
                         | Inr t \<Rightarrow>
                             (case merged_key result (str ''groqApiKey'') updates
                                     (cached_field (settingsCache w1) groqApiKey) of
                                Inl e \<Rightarrow> (Inl e, w1)
                              | Inr g \<Rightarrow>
                                  (let s = \<lparr>togetherApiKey = t, groqApiKey = g,
                                            serverUrl = targetUrl\<rparr>
                                   in (Inr s, w1\<lparr>settingsCache := Some s\<rparr>)))))))"

definition getBaseUrl :: "js_string option \<Rightarrow> world \<Rightarrow> js_string" where
  "getBaseUrl env w = getStoredServerUrl env w"

definition clearSettingsCache :: "world \<Rightarrow> world" where
  "clearSettingsCache w = w\<lparr>settingsCache := None\<rparr>"

definition getCachedSettings :: "world \<Rightarrow> Settings option" where
  "getCachedSettings w = settingsCache w"

text \<open>
  \<open>resetServerUrl\<close>: \<open>removeItem\<close> is outside any \<open>try\<close>, so when it throws the
  cache is not cleared.
\<close>

definition resetServerUrl :: "world \<Rightarrow> (js_error + unit) \<times> world" where
  "resetServerUrl w =
     (case window w of
        None \<Rightarrow> (Inr (), w\<lparr>settingsCache := None\<rparr>)
      | Some ls \<Rightarrow>
          (case removeItem ls SERVER_URL_KEY of
             Inl e \<Rightarrow> (Inl e, w)
           | Inr ls' \<Rightarrow> (Inr (), w\<lparr>window := Some ls', settingsCache := None\<rparr>)))"

section \<open>API helpers (the module importing \<open>getBaseUrl\<close> and \<open>clearSettingsCache\<close>)\<close>

text \<open>
  Its server-side fallback is the same expression as \<open>DEFAULT_SERVER_URL\<close>.
\<close>

definition getBackendUrl :: "js_string option \<Rightarrow> world \<Rightarrow> js_string" where
  "getBackendUrl env w =
     (case window w of
        None \<Rightarrow> DEFAULT_SERVER_URL env
      | Some ls \<Rightarrow> getBaseUrl env w)"

definition api_headers :: "(js_string \<times> js_string) list" where
  "api_headers =
     [(str ''Content-Type'', str ''application/json''),
      (str ''ngrok-skip-browser-warning'', str ''69420'')]"

definition captureContext_request :: "js_string \<Rightarrow> js_string \<Rightarrow> request" where
  "captureContext_request backendUrl content =
     \<lparr>url = backendUrl @ str ''/api/context'', http_method = POST, cache = None,
      headers = api_headers,
      body = Some (JObj [(str ''source'', JStr (str ''manual'')), (str ''content'', JStr content)])\<rparr>"

definition captureContext_try :: "js_string option \<Rightarrow> fetch \<Rightarrow> world \<Rightarrow> js_string \<Rightarrow> (js_error + jsval) \<times> world" where
  "captureContext_try env fetch w content =
     (let req = captureContext_request (getBackendUrl env w) content;
          w1 = issue w req
      in case fetch req of
           Rejected e \<Rightarrow> (Inl e, w1)
         | Response r \<Rightarrow>
             if \<not> ok r then
               (case body_json r of
                  Inl e \<Rightarrow> (Inl e, w1)
                | Inr error \<Rightarrow>
                    (case get_prop error (str ''error'') of
                       Inl e \<Rightarrow> (Inl e, w1)
                     | Inr msg \<Rightarrow>
                         (Inr (JObj [(str ''ok'', JBool False),
                                     (str ''error'',
                                      js_or msg (JStr (str ''Failed to capture context'')))]),
                          w1)))
             else (case body_json r of
                 Inl e \<Rightarrow> (Inl e, w1)
               | Inr result \<Rightarrow> (Inr result, w1)))"

definition captureContext :: "js_string option \<Rightarrow> fetch \<Rightarrow> world \<Rightarrow> js_string \<Rightarrow> (js_error + jsval) \<times> world" where
  "captureContext env fetch w content =
     (case captureContext_try env fetch w content of
        (Inr v, w1) \<Rightarrow> (Inr v, w1)
      | (Inl e, w1) \<Rightarrow>
          (Inr (JObj [(str ''ok'', JBool False), (str ''error'', JStr (str ''Network error''))]),
           w1))"

text \<open>
  The other helpers end in \<open>catch (error) { ...; return null; }\<close>.
\<close>

definition catch_null :: "(js_error + jsval) \<times> world \<Rightarrow> (js_error + jsval) \<times> world" where
  "catch_null p = (case p of (Inr v, w1) \<Rightarrow> (Inr v, w1) | (Inl e, w1) \<Rightarrow> (Inr JNull, w1))"

definition getDailyPlan_request :: "js_string \<Rightarrow> js_string \<Rightarrow> request" where
  "getDailyPlan_request backendUrl dateStr =
     \<lparr>url = backendUrl @ str ''/api/daily-plan?date='' @ dateStr, http_method = GET,
      cache = Some (str ''no-cache''), headers = api_headers, body = None\<rparr>"

definition getDailyPlan_try :: "js_string option \<Rightarrow> fetch \<Rightarrow> world \<Rightarrow> js_string \<Rightarrow> (js_error + jsval) \<times> world" where
  "getDailyPlan_try env fetch w dateStr =
     (let req = getDailyPlan_request (getBackendUrl env w) dateStr;
          w1 = issue w req
      in case fetch req of
           Rejected e \<Rightarrow> (Inl e, w1)
         | Response r \<Rightarrow>
             if \<not> ok r then
               (case body_text r of
                  Inl e \<Rightarrow> (Inl e, w1)
                | Inr txt \<Rightarrow> (Inr JNull, w1))
             else (case body_json r of
                 Inl e \<Rightarrow> (Inl e, w1)
               | Inr data \<Rightarrow> (Inr data, w1)))"

definition getDailyPlan :: "js_string option \<Rightarrow> fetch \<Rightarrow> world \<Rightarrow> js_string \<Rightarrow> (js_error + jsval) \<times> world" where
  "getDailyPlan env fetch w dateStr = catch_null (getDailyPlan_try env fetch w dateStr)"

text \<open>
  \<open>new Date()\<close>: the calendar fields of the clock, in local time and in UTC.
  \<open>getMonth\<close> counts from 0.
\<close>

record js_date =
  getFullYear :: int
  getMonth :: nat
  getDate :: nat
  getUTCFullYear :: int
  getUTCMonth :: nat
  getUTCDate :: nat

definition digit :: "nat \<Rightarrow> 16 word" where
  "digit n = of_nat (48 + n)"

text \<open>\<open>String(n)\<close> and the template conversion of an integer: its decimal numeral.\<close>

fun decimal :: "nat \<Rightarrow> js_string" where
  "decimal n = (if n < 10 then [digit n] else decimal (n div 10) @ [digit (n mod 10)])"

definition String_of_int :: "int \<Rightarrow> js_string" where
  "String_of_int i = (if i < 0 then str ''-'' @ decimal (nat (- i)) else decimal (nat i))"

text \<open>
  \<open>s.padStart(targetLength, padString)\<close>: the pad string is repeated and cut to the
  missing length.
\<close>

definition padStart :: "js_string \<Rightarrow> nat \<Rightarrow> js_string \<Rightarrow> js_string" where
  "padStart s targetLength padString =
     (if targetLength \<le> length s \<or> padString = [] then s
      else take (targetLength - length s)
             (concat (replicate (targetLength - length s) padString)) @ s)"

definition today_dateStr :: "js_date \<Rightarrow> js_string" where
  "today_dateStr now =
     String_of_int (getFullYear now) @ str ''-'' @
     padStart (String_of_int (int (getMonth now) + 1)) 2 (str ''0'') @ str ''-'' @
     padStart (String_of_int (int (getDate now))) 2 (str ''0'')"

definition getTodayPlan :: "js_string option \<Rightarrow> fetch \<Rightarrow> world \<Rightarrow> js_date \<Rightarrow> (js_error + jsval) \<times> world" where
  "getTodayPlan env fetch w now = getDailyPlan env fetch w (today_dateStr now)"

text \<open>\<open>data.ok ? data.plan : null\<close>.\<close>

definition plan_if_ok :: "jsval \<Rightarrow> js_error + jsval" where
  "plan_if_ok data =
     (case get_prop data (str ''ok'') of
        Inl e \<Rightarrow> Inl e
      | Inr flag \<Rightarrow> if truthy flag then get_prop data (str ''plan'') else Inr JNull)"

definition generateDailyPlan_request :: "js_string \<Rightarrow> js_string \<Rightarrow> request" where
  "generateDailyPlan_request backendUrl dateStr =
     \<lparr>url = backendUrl @ str ''/api/daily-plan/generate?date='' @ dateStr, http_method = POST,
      cache = Some (str ''no-cache''), headers = api_headers, body = None\<rparr>"

definition generateDailyPlan_try :: "js_string option \<Rightarrow> fetch \<Rightarrow> world \<Rightarrow> js_string \<Rightarrow> (js_error + jsval) \<times> world" where
  "generateDailyPlan_try env fetch w dateStr =
     (let req = generateDailyPlan_request (getBackendUrl env w) dateStr;
          w1 = issue w req
      in case fetch req of
           Rejected e \<Rightarrow> (Inl e, w1)
         | Response r \<Rightarrow>
             if \<not> ok r then
               (case body_text r of
                  Inl e \<Rightarrow> (Inl e, w1)
                | Inr txt \<Rightarrow> (Inr JNull, w1))
             else (case body_json r of
                 Inl e \<Rightarrow> (Inl e, w1)
               | Inr data \<Rightarrow> (plan_if_ok data, w1)))"

definition generateDailyPlan :: "js_string option \<Rightarrow> fetch \<Rightarrow> world \<Rightarrow> js_string \<Rightarrow> (js_error + jsval) \<times> world" where
  "generateDailyPlan env fetch w dateStr = catch_null (generateDailyPlan_try env fetch w dateStr)"

definition getAvailableDates_request :: "js_string \<Rightarrow> request" where
  "getAvailableDates_request backendUrl =
     \<lparr>url = backendUrl @ str ''/api/daily-plan/available-dates'', http_method = GET,
      cache = Some (str ''no-cache''), headers = api_headers, body = None\<rparr>"

definition getAvailableDates_try :: "js_string option \<Rightarrow> fetch \<Rightarrow> world \<Rightarrow> (js_error + jsval) \<times> world" where
  "getAvailableDates_try env fetch w =
     (let req = getAvailableDates_request (getBackendUrl env w);
          w1 = issue w req
      in case fetch req of
           Rejected e \<Rightarrow> (Inl e, w1)
         | Response r \<Rightarrow>
             if \<not> ok r then
               (case body_text r of
                  Inl e \<Rightarrow> (Inl e, w1)
                | Inr txt \<Rightarrow> (Inr JNull, w1))
             else (case body_json r of
                 Inl e \<Rightarrow> (Inl e, w1)
               | Inr data \<Rightarrow> (Inr data, w1)))"

definition getAvailableDates :: "js_string option \<Rightarrow> fetch \<Rightarrow> world \<Rightarrow> (js_error + jsval) \<times> world" where
  "getAvailableDates env fetch w = catch_null (getAvailableDates_try env fetch w)"

definition generateMissingPlans_request :: "js_string \<Rightarrow> request" where
  "generateMissingPlans_request backendUrl =
     \<lparr>url = backendUrl @ str ''/api/daily-plan/generate-missing'', http_method = POST,
      cache = Some (str ''no-cache''), headers = api_headers, body = None\<rparr>"

definition generateMissingPlans_try :: "js_string option \<Rightarrow> fetch \<Rightarrow> world \<Rightarrow> (js_error + jsval) \<times> world" where
  "generateMissingPlans_try env fetch w =
     (let req = generateMissingPlans_request (getBackendUrl env w);
          w1 = issue w req
      in case fetch req of
           Rejected e \<Rightarrow> (Inl e, w1)
         | Response r \<Rightarrow>
             if \<not> ok r then (Inr JNull, w1)
             else (case body_json r of
                 Inl e \<Rightarrow> (Inl e, w1)
               | Inr data \<Rightarrow> (Inr data, w1)))"

definition generateMissingPlans :: "js_string option \<Rightarrow> fetch \<Rightarrow> world \<Rightarrow> (js_error + jsval) \<times> world" where
  "generateMissingPlans env fetch w = catch_null (generateMissingPlans_try env fetch w)"

text \<open>
  \<open>toggleTaskCompletion\<close>: \<open>taskId\<close> stands for the text that the template
  \<open>${taskId}\<close> produces from the number.
\<close>

definition toggleTaskCompletion_request :: "js_string \<Rightarrow> js_string \<Rightarrow> bool \<Rightarrow> js_string \<Rightarrow> request" where
  "toggleTaskCompletion_request backendUrl taskId completed date =
     \<lparr>url = backendUrl @ str ''/api/tasks/'' @ taskId, http_method = PATCH,
      cache = Some (str ''no-cache''), headers = api_headers,
      body = Some (JObj [(str ''completed'', JBool completed), (str ''date'', JStr date)])\<rparr>"

definition toggleTaskCompletion_try :: "js_string option \<Rightarrow> fetch \<Rightarrow> world \<Rightarrow> js_string \<Rightarrow> bool \<Rightarrow> js_string \<Rightarrow> (js_error + jsval) \<times> world" where
  "toggleTaskCompletion_try env fetch w taskId completed date =
     (let req = toggleTaskCompletion_request (getBackendUrl env w) taskId completed date;
          w1 = issue w req
      in case fetch req of
           Rejected e \<Rightarrow> (Inl e, w1)
         | Response r \<Rightarrow>
             if \<not> ok r then (Inr JNull, w1)
             else (case body_json r of
                 Inl e \<Rightarrow> (Inl e, w1)
               | Inr data \<Rightarrow> (plan_if_ok data, w1)))"

definition toggleTaskCompletion :: "js_string option \<Rightarrow> fetch \<Rightarrow> world \<Rightarrow> js_string \<Rightarrow> bool \<Rightarrow> js_string \<Rightarrow> (js_error + jsval) \<times> world" where
  "toggleTaskCompletion env fetch w taskId completed date =
     catch_null (toggleTaskCompletion_try env fetch w taskId completed date)"

definition refreshApiSettings :: "world \<Rightarrow> world" where
  "refreshApiSettings w = clearSettingsCache w"

section \<open>Calls and sequences of operations\<close>

text \<open>The seven request helpers behind one name each, so that a property can be stated for all.\<close>

datatype api_call =
    CaptureContext js_string
  | GetDailyPlan js_string
  | GetTodayPlan js_date
  | GenerateDailyPlan js_string
  | GetAvailableDates
  | GenerateMissingPlans
  | ToggleTaskCompletion js_string bool js_string

fun api_client :: "js_string option \<Rightarrow> fetch \<Rightarrow> world \<Rightarrow> api_call \<Rightarrow> (js_error + jsval) \<times> world" where
  "api_client env fetch w (CaptureContext content) = captureContext env fetch w content"
| "api_client env fetch w (GetDailyPlan dateStr) = getDailyPlan env fetch w dateStr"
| "api_client env fetch w (GetTodayPlan now) = getTodayPlan env fetch w now"
| "api_client env fetch w (GenerateDailyPlan dateStr) = generateDailyPlan env fetch w dateStr"
| "api_client env fetch w GetAvailableDates = getAvailableDates env fetch w"
| "api_client env fetch w GenerateMissingPlans = generateMissingPlans env fetch w"
| "api_client env fetch w (ToggleTaskCompletion taskId completed date) =
     toggleTaskCompletion env fetch w taskId completed date"

text \<open>The request each helper hands to \<open>fetch\<close>.\<close>

fun api_request :: "js_string option \<Rightarrow> world \<Rightarrow> api_call \<Rightarrow> request" where
  "api_request env w (CaptureContext content) =
     captureContext_request (getBackendUrl env w) content"
| "api_request env w (GetDailyPlan dateStr) =
     getDailyPlan_request (getBackendUrl env w) dateStr"
| "api_request env w (GetTodayPlan now) =
     getDailyPlan_request (getBackendUrl env w) (today_dateStr now)"
| "api_request env w (GenerateDailyPlan dateStr) =
     generateDailyPlan_request (getBackendUrl env w) dateStr"
| "api_request env w GetAvailableDates = getAvailableDates_request (getBackendUrl env w)"
| "api_request env w GenerateMissingPlans = generateMissingPlans_request (getBackendUrl env w)"
| "api_request env w (ToggleTaskCompletion taskId completed date) =
     toggleTaskCompletion_request (getBackendUrl env w) taskId completed date"

text \<open>
  Backend outcomes: a network failure or a non-success status (\<open>failed\<close>), and these or
  a body that does not parse (\<open>backend_failure\<close>).
\<close>

definition failed :: "fetch_outcome \<Rightarrow> bool" where
  "failed out = (case out of Rejected e \<Rightarrow> True | Response r \<Rightarrow> \<not> ok r)"

definition backend_failure :: "fetch_outcome \<Rightarrow> bool" where
  "backend_failure out =
     (case out of Rejected e \<Rightarrow> True | Response r \<Rightarrow> \<not> ok r \<or> isl (body_json r))"

text \<open>The failure value of a helper: \<open>null\<close>, or an object with \<open>ok: false\<close>.\<close>

fun failure_value :: "api_call \<Rightarrow> jsval \<Rightarrow> bool" where
  "failure_value (CaptureContext content) v = (get_prop v (str ''ok'') = Inr (JBool False))"
| "failure_value c v = (v = JNull)"

text \<open>The operations of the settings module, each with the backend it meets.\<close>

datatype operation =
    LoadSettings fetch
  | SaveSettings fetch partial_settings
  | ClearSettingsCache
  | ResetServerUrl

fun perform :: "js_string option \<Rightarrow> world \<Rightarrow> operation \<Rightarrow> world" where
  "perform env w (LoadSettings fetch) = snd (loadSettings env fetch w)"
| "perform env w (SaveSettings fetch updates) = snd (saveSettings env fetch w updates)"
| "perform env w ClearSettingsCache = clearSettingsCache w"
| "perform env w ResetServerUrl = snd (resetServerUrl w)"

definition run :: "js_string option \<Rightarrow> world \<Rightarrow> operation list \<Rightarrow> world" where
  "run env w ops = foldl (perform env) w ops"

section \<open>The specification's wording\<close>

text \<open>
  The URL that a save with a \<open>serverUrl\<close> update makes current: the trimmed value, or
  the default when that is empty.
\<close>

definition new_server_url :: "js_string option \<Rightarrow> js_string \<Rightarrow> js_string" where
  "new_server_url env u = (if trim u = [] then DEFAULT_SERVER_URL env else trim u)"

text \<open>
  The fallback chain of an API key over strings: a candidate counts when it is present
  and non-empty.
\<close>

definition or_else :: "js_string option \<Rightarrow> js_string \<Rightarrow> js_string" where
  "or_else candidate rest =
     (case candidate of None \<Rightarrow> rest | Some s \<Rightarrow> if s = [] then rest else s)"

definition key_chain :: "js_string option \<Rightarrow> js_string option \<Rightarrow> js_string option \<Rightarrow> js_string" where
  "key_chain from_backend submitted cached =
     or_else from_backend (or_else submitted (or_else cached []))"

text \<open>The value the backend's reply gives for a key under \<open>settings\<close>, if any.\<close>

definition reply_key :: "jsval \<Rightarrow> js_string \<Rightarrow> jsval" where
  "reply_key result k =
     (case result of
        JObj kvs \<Rightarrow>
          (case map_of kvs (str ''settings'') of
             Some (JObj props) \<Rightarrow> (case map_of props k of Some v \<Rightarrow> v | None \<Rightarrow> JUndefined)
           | _ \<Rightarrow> JUndefined)
      | _ \<Rightarrow> JUndefined)"

text \<open>A value of type \<open>string | undefined\<close>, and the string it holds.\<close>

fun optional_string :: "jsval \<Rightarrow> bool" where
  "optional_string JUndefined = True"
| "optional_string (JStr s) = True"
| "optional_string _ = False"

fun string_of :: "jsval \<Rightarrow> js_string option" where
  "string_of (JStr s) = Some s"
| "string_of _ = None"

text \<open>A date as \<open>YYYY-MM-DD\<close>: four, two and two decimal digits.\<close>

definition two_digits :: "nat \<Rightarrow> js_string" where
  "two_digits n = [digit (n div 10 mod 10), digit (n mod 10)]"

definition four_digits :: "nat \<Rightarrow> js_string" where
  "four_digits n =
     [digit (n div 1000 mod 10), digit (n div 100 mod 10), digit (n div 10 mod 10), digit (n mod 10)]"

definition YYYY_MM_DD :: "nat \<Rightarrow> nat \<Rightarrow> nat \<Rightarrow> js_string" where
  "YYYY_MM_DD y m d = four_digits y @ str ''-'' @ two_digits m @ str ''-'' @ two_digits d"

section \<open>Example states and backends\<close>

definition empty_storage :: local_storage where
  "empty_storage = \<lparr>items = Map.empty, accessible = True, quota_exceeded = False\<rparr>"

definition browser :: world where
  "browser = \<lparr>window = Some empty_storage, settingsCache = None, sent = []\<rparr>"

definition full_browser :: world where
  "full_browser =
     \<lparr>window = Some (empty_storage\<lparr>quota_exceeded := True\<rparr>), settingsCache = None, sent = []\<rparr>"

definition server_side :: world where
  "server_side = \<lparr>window = None, settingsCache = None, sent = []\<rparr>"

definition remembering :: world where
  "remembering =
     \<lparr>window = Some empty_storage,
      settingsCache = Some \<lparr>togetherApiKey = JStr (str ''old''), groqApiKey = JStr (str ''og''),
                             serverUrl = str ''http://localhost:8000''\<rparr>,
      sent = []\<rparr>"

definition offline :: fetch where
  "offline req = Rejected TypeError"

definition unavailable :: fetch where
  "unavailable req =
     Response \<lparr>ok = False, status = 503, statusText = str ''Service Unavailable'',
               body_json = Inl SyntaxError, body_text = Inr (str ''down'')\<rparr>"

definition reply :: "jsval \<Rightarrow> fetch" where
  "reply v req =
     Response \<lparr>ok = True, status = 200, statusText = str ''OK'',
               body_json = Inr v, body_text = Inl TypeError\<rparr>"

definition garbled :: fetch where
  "garbled req =
     Response \<lparr>ok = True, status = 200, statusText = str ''OK'',
               body_json = Inl SyntaxError, body_text = Inl TypeError\<rparr>"

definition echo_json :: jsval where
  "echo_json =
     JObj [(str ''togetherApiKey'', JStr (str ''tk'')),
           (str ''groqApiKey'', JStr (str ''gk'')),
           (str ''serverUrl'', JStr (str ''http://localhost:8000''))]"

definition other_json :: jsval where
  "other_json =
     JObj [(str ''togetherApiKey'', JStr (str ''tk'')),
           (str ''serverUrl'', JStr (str ''http://evil.example''))]"

definition saved_json :: jsval where
  "saved_json = JObj [(str ''settings'', JObj [(str ''togetherApiKey'', JStr (str ''tk''))])]"

definition url_change :: partial_settings where
  "url_change =
     \<lparr>togetherApiKey_opt = None, groqApiKey_opt = None, serverUrl_opt = Some (str '' http://x '')\<rparr>"

definition key_update :: partial_settings where
  "key_update =
     \<lparr>togetherApiKey_opt = None, groqApiKey_opt = Some (str ''gk''), serverUrl_opt = None\<rparr>"

definition no_update :: partial_settings where
  "no_update = \<lparr>togetherApiKey_opt = None, groqApiKey_opt = None, serverUrl_opt = None\<rparr>"

definition new_year :: js_date where
  "new_year =
     \<lparr>getFullYear = 2026, getMonth = 0, getDate = 1,
      getUTCFullYear = 2025, getUTCMonth = 11, getUTCDate = 31\<rparr>"

section \<open>Basic facts\<close>

lemma issue_window [simp]: "window (issue w req) = window w"
  and issue_cache [simp]: "settingsCache (issue w req) = settingsCache w"
  and issue_sent [simp]: "sent (issue w req) = sent w @ [req]"
  by (simp_all add: issue_def)

lemma getStoredServerUrl_issue [simp]:
  "getStoredServerUrl env (issue w req) = getStoredServerUrl env w"
  by (simp add: getStoredServerUrl_def)

lemma saveSettings_target_cache [simp]:
  "settingsCache (snd (saveSettings_target env w updates)) = settingsCache w"
  by (simp add: saveSettings_target_def storeServerUrl_def Let_def
      split: option.splits sum.splits)

lemma loadSettings_try_failed:
  assumes "failed (fetch (loadSettings_request (getStoredServerUrl env w)))"
  shows "\<exists>e. loadSettings_try env fetch w =
           (Inl e, issue w (loadSettings_request (getStoredServerUrl env w)))"
  using assms
  by (auto simp: loadSettings_try_def failed_def Let_def split: fetch_outcome.splits)

section \<open>Failures of loadSettings\<close>

text \<open>
  C3.  When the request of \<open>loadSettings\<close> fails (the network fails or the status is
  not a success), the call does not throw: it returns the Settings whose two keys are the
  empty string and whose \<open>serverUrl\<close> is the URL resolved from local storage, or the
  default.
\<close>

theorem loadSettings_failure_fallback:
  assumes "failed (fetch (loadSettings_request (getStoredServerUrl env w)))"
  shows "fst (loadSettings env fetch w) =
           Inr \<lparr>togetherApiKey = JStr [], groqApiKey = JStr [],
                 serverUrl = getStoredServerUrl env w\<rparr>"
proof -
  from assms loadSettings_try_failed [where fetch=fetch and env=env and w=w] obtain e where
    "loadSettings_try env fetch w =
       (Inl e, issue w (loadSettings_request (getStoredServerUrl env w)))" by blast
  then show ?thesis
    by (simp add: loadSettings_def)
qed

theorem loadSettings_failure_fallback_witness:
  "failed (unavailable (loadSettings_request (getStoredServerUrl None browser))) \<and>
   fst (loadSettings None unavailable browser) =
     Inr \<lparr>togetherApiKey = JStr [], groqApiKey = JStr [],
           serverUrl = str ''http://localhost:8000''\<rparr>"
proof -
  have f: "failed (unavailable (loadSettings_request (getStoredServerUrl None browser)))"
    by (simp add: failed_def unavailable_def)
  have u: "getStoredServerUrl None browser = str ''http://localhost:8000''"
    by (simp add: getStoredServerUrl_def browser_def empty_storage_def getItem_def
        DEFAULT_SERVER_URL_def)
  from loadSettings_failure_fallback [where fetch=unavailable and env=None and w=browser] u f
  show ?thesis by simp
qed

text \<open>
  C9.  A failed \<open>loadSettings\<close> leaves the settings cache as it was: the fallback it
  returns is not stored, and \<open>getCachedSettings\<close> afterwards gives the value from
  before the call.
\<close>

theorem loadSettings_failure_keeps_cache:
  assumes "failed (fetch (loadSettings_request (getStoredServerUrl env w)))"
  shows "getCachedSettings (snd (loadSettings env fetch w)) = getCachedSettings w"
proof -
  from assms loadSettings_try_failed [where fetch=fetch and env=env and w=w] obtain e where
    "loadSettings_try env fetch w =
       (Inl e, issue w (loadSettings_request (getStoredServerUrl env w)))" by blast
  then show ?thesis
    by (simp add: loadSettings_def getCachedSettings_def)
qed

theorem loadSettings_failure_keeps_cache_witness:
  "failed (offline (loadSettings_request (getStoredServerUrl None
      (browser\<lparr>settingsCache := Some \<lparr>togetherApiKey = JStr (str ''tk''), groqApiKey = JStr [],
         serverUrl = str ''http://localhost:8000''\<rparr>\<rparr>)))) \<and>
   getCachedSettings (snd (loadSettings None offline
      (browser\<lparr>settingsCache := Some \<lparr>togetherApiKey = JStr (str ''tk''), groqApiKey = JStr [],
         serverUrl = str ''http://localhost:8000''\<rparr>\<rparr>))) =
     Some \<lparr>togetherApiKey = JStr (str ''tk''), groqApiKey = JStr [],
         serverUrl = str ''http://localhost:8000''\<rparr>"
  using loadSettings_failure_keeps_cache [where fetch=offline and env=None and
      w="browser\<lparr>settingsCache := Some \<lparr>togetherApiKey = JStr (str ''tk''), groqApiKey = JStr [],
         serverUrl = str ''http://localhost:8000''\<rparr>\<rparr>"]
  by (simp add: failed_def offline_def getCachedSettings_def)

section \<open>Failures of saveSettings\<close>

text \<open>
  C5.  When the request of \<open>saveSettings\<close> fails (the network fails or the status is
  not a success), the call throws to its caller: the rejection of \<open>fetch\<close> itself, or
  the error made from the status text.
\<close>

theorem saveSettings_failure_raises:
  assumes "failed (fetch (saveSettings_request (fst (saveSettings_target env w updates)) updates))"
  shows "fst (saveSettings env fetch w updates) =
           Inl (case fetch (saveSettings_request (fst (saveSettings_target env w updates)) updates) of
                  Rejected e \<Rightarrow> e
                | Response r \<Rightarrow> Error (str ''Failed to save settings: '' @ statusText r))"
  using assms
  by (cases "saveSettings_target env w updates")
     (auto simp: saveSettings_def failed_def Let_def split: fetch_outcome.splits)

theorem saveSettings_failure_raises_witness:
  "failed (unavailable (saveSettings_request (fst (saveSettings_target None browser key_update)) key_update)) \<and>
   fst (saveSettings None unavailable browser key_update) =
     Inl (Error (str ''Failed to save settings: Service Unavailable''))"
  using saveSettings_failure_raises [where fetch=unavailable and env=None and w=browser
      and updates=key_update]
  by (simp add: failed_def unavailable_def str_def)

section \<open>The request helpers never throw\<close>

lemma catch_null_Inr: "\<exists>v. fst (catch_null p) = Inr v"
  by (cases p) (auto simp: catch_null_def split: sum.splits)

lemma catch_null_Inl [simp]: "catch_null (Inl e, w) = (Inr JNull, w)"
  by (simp add: catch_null_def)

lemma catch_null_Inr_eq [simp]: "catch_null (Inr v, w) = (Inr v, w)"
  by (simp add: catch_null_def)

lemma captureContext_Inr: "\<exists>v. fst (captureContext env fetch w content) = Inr v"
  by (cases "captureContext_try env fetch w content")
     (auto simp: captureContext_def split: sum.splits)

lemma api_client_returns: "\<exists>v. fst (api_client env fetch w c) = Inr v"
  by (cases c)
     (simp_all add: captureContext_Inr catch_null_Inr getDailyPlan_def getTodayPlan_def
       generateDailyPlan_def getAvailableDates_def generateMissingPlans_def
       toggleTaskCompletion_def)

lemma captureContext_failure:
  assumes "backend_failure (fetch (captureContext_request (getBackendUrl env w) content))"
  shows "\<exists>v. fst (captureContext env fetch w content) = Inr v \<and>
             get_prop v (str ''ok'') = Inr (JBool False)"
  using assms
  by (auto simp: captureContext_def captureContext_try_def backend_failure_def Let_def str_def
      split: fetch_outcome.splits sum.splits)

lemma getDailyPlan_failure:
  assumes "backend_failure (fetch (getDailyPlan_request (getBackendUrl env w) dateStr))"
  shows "fst (getDailyPlan env fetch w dateStr) = Inr JNull"
  using assms
  by (auto simp: getDailyPlan_def getDailyPlan_try_def backend_failure_def Let_def
      split: fetch_outcome.splits sum.splits)

lemma generateDailyPlan_failure:
  assumes "backend_failure (fetch (generateDailyPlan_request (getBackendUrl env w) dateStr))"
  shows "fst (generateDailyPlan env fetch w dateStr) = Inr JNull"
  using assms
  by (auto simp: generateDailyPlan_def generateDailyPlan_try_def backend_failure_def Let_def
      split: fetch_outcome.splits sum.splits)

lemma getAvailableDates_failure:
  assumes "backend_failure (fetch (getAvailableDates_request (getBackendUrl env w)))"
  shows "fst (getAvailableDates env fetch w) = Inr JNull"
  using assms
  by (auto simp: getAvailableDates_def getAvailableDates_try_def backend_failure_def Let_def
      split: fetch_outcome.splits sum.splits)

lemma generateMissingPlans_failure:
  assumes "backend_failure (fetch (generateMissingPlans_request (getBackendUrl env w)))"
  shows "fst (generateMissingPlans env fetch w) = Inr JNull"
  using assms
  by (auto simp: generateMissingPlans_def generateMissingPlans_try_def backend_failure_def Let_def
      split: fetch_outcome.splits sum.splits)

lemma toggleTaskCompletion_failure:
  assumes "backend_failure (fetch (toggleTaskCompletion_request (getBackendUrl env w) taskId completed date))"
  shows "fst (toggleTaskCompletion env fetch w taskId completed date) = Inr JNull"
  using assms
  by (auto simp: toggleTaskCompletion_def toggleTaskCompletion_try_def backend_failure_def Let_def
      split: fetch_outcome.splits sum.splits)

text \<open>
  C2.  Each of the seven request helpers returns a value and never throws, whatever the
  backend does; and when the backend fails (a rejected \<open>fetch\<close>, a non-success status
  or a body that does not parse) the value is \<open>null\<close>, or for \<open>captureContext\<close> an
  object whose \<open>ok\<close> is \<open>false\<close>.
\<close>

theorem api_client_never_raises:
  "(\<exists>v. fst (api_client env fetch w c) = Inr v) \<and>
   (backend_failure (fetch (api_request env w c)) \<longrightarrow>
      (\<exists>v. fst (api_client env fetch w c) = Inr v \<and> failure_value c v))"
proof (intro conjI impI)
  show "\<exists>v. fst (api_client env fetch w c) = Inr v" by (rule api_client_returns)
next
  assume "backend_failure (fetch (api_request env w c))"
  then show "\<exists>v. fst (api_client env fetch w c) = Inr v \<and> failure_value c v"
    by (cases c)
       (simp_all add: captureContext_failure getDailyPlan_failure generateDailyPlan_failure
         getAvailableDates_failure generateMissingPlans_failure toggleTaskCompletion_failure
         getTodayPlan_def)
qed

theorem api_client_never_raises_witness:
  "backend_failure (garbled (api_request None browser (GenerateDailyPlan (str ''2026-01-01'')))) \<and>
   fst (api_client None garbled browser (GenerateDailyPlan (str ''2026-01-01''))) = Inr JNull"
  using api_client_never_raises [where fetch=garbled and env=None and w=browser
      and c="GenerateDailyPlan (str ''2026-01-01'')"]
  by (simp add: backend_failure_def garbled_def)

section \<open>Request headers\<close>

lemma api_client_sends:
  "sent (snd (api_client env fetch w c)) = sent w @ [api_request env w c]"
  by (cases c)
     (auto simp: captureContext_def captureContext_try_def getDailyPlan_def getDailyPlan_try_def
        getTodayPlan_def generateDailyPlan_def generateDailyPlan_try_def getAvailableDates_def
        getAvailableDates_try_def generateMissingPlans_def generateMissingPlans_try_def
        toggleTaskCompletion_def toggleTaskCompletion_try_def Let_def catch_null_def
      split: fetch_outcome.splits sum.splits)

lemma api_request_ngrok_header:
  "map_of (headers (api_request env w c)) (str ''ngrok-skip-browser-warning'') = Some (str ''69420'')"
  by (cases c)
     (simp_all add: captureContext_request_def getDailyPlan_request_def
        generateDailyPlan_request_def getAvailableDates_request_def
        generateMissingPlans_request_def toggleTaskCompletion_request_def api_headers_def str_def)

text \<open>
  C6.  The specification has every request of this layer carry the header
  \<open>ngrok-skip-browser-warning: 69420\<close>.  The seven request helpers send it
  (\<open>api_request_ngrok_header\<close>); the two requests to \<open>/api/settings\<close> do not: the
  GET of \<open>loadSettings\<close> has no headers at all, and the POST of \<open>saveSettings\<close> has
  \<open>Content-Type\<close> only.
\<close>

theorem settings_requests_lack_ngrok_header:
  "map headers (sent (snd (loadSettings None (reply echo_json) browser))) = [[]] \<and>
   map headers (sent (snd (saveSettings None (reply saved_json) browser key_update))) =
     [[(str ''Content-Type'', str ''application/json'')]]"
  by (simp add: loadSettings_def loadSettings_try_def saveSettings_def saveSettings_target_def
      loadSettings_request_def saveSettings_request_def reply_def echo_json_def saved_json_def
      browser_def Let_def key_update_def merged_key_def backendUpdates_def cached_field_def
      str_def js_or_def issue_def)

section \<open>The date of getTodayPlan\<close>

declare decimal.simps [simp del]

lemma decimal_small: "n < 10 \<Longrightarrow> decimal n = [digit n]"
  by (subst decimal.simps) simp

lemma decimal_step: "10 \<le> n \<Longrightarrow> decimal n = decimal (n div 10) @ [digit (n mod 10)]"
  by (subst decimal.simps) simp

lemma decimal_two: "10 \<le> n \<Longrightarrow> n < 100 \<Longrightarrow> decimal n = two_digits n"
  by (simp add: decimal_step decimal_small two_digits_def)

lemma padStart_two: "n < 100 \<Longrightarrow> padStart (decimal n) 2 (str ''0'') = two_digits n"
  by (cases "n < 10")
     (simp_all add: decimal_two decimal_small padStart_def two_digits_def str_def digit_def)

lemma decimal_four:
  assumes "1000 \<le> n" "n \<le> 9999"
  shows "decimal n = four_digits n"
proof -
  have a: "decimal n = decimal (n div 10) @ [digit (n mod 10)]"
    using assms by (simp add: decimal_step)
  have b: "decimal (n div 10) = decimal (n div 100) @ [digit (n div 10 mod 10)]"
    using assms by (simp add: decimal_step div_mult2_eq [symmetric])
  have c: "decimal (n div 100) = decimal (n div 1000) @ [digit (n div 100 mod 10)]"
    using assms by (simp add: decimal_step div_mult2_eq [symmetric])
  have d: "decimal (n div 1000) = [digit (n div 1000 mod 10)]"
    using assms by (simp add: decimal_small)
  show ?thesis by (simp add: a b c d four_digits_def)
qed

text \<open>
  C7.  \<open>getTodayPlan\<close> is \<open>getDailyPlan\<close> at the date of the local calendar fields
  of the clock (\<open>getFullYear\<close>, \<open>getMonth\<close> + 1, \<open>getDate\<close>, not the UTC ones)
  written as \<open>YYYY-MM-DD\<close>, month and day padded with a zero to two digits.  The year
  is written as it is, which makes four digits for the years 1000 to 9999.
\<close>

theorem getTodayPlan_local_date:
  assumes "1000 \<le> getFullYear now" and "getFullYear now \<le> 9999"
    and "getMonth now < 12" and "getDate now \<le> 31"
  shows "getTodayPlan env fetch w now =
           getDailyPlan env fetch w
             (YYYY_MM_DD (nat (getFullYear now)) (getMonth now + 1) (getDate now))"
proof -
  have y: "String_of_int (getFullYear now) = four_digits (nat (getFullYear now))"
    using assms by (simp add: String_of_int_def decimal_four)
  have m: "padStart (String_of_int (int (getMonth now) + 1)) 2 (str ''0'') =
             two_digits (getMonth now + 1)"
    using assms padStart_two [of "getMonth now + 1"]
    by (simp add: String_of_int_def nat_add_distrib)
  have d: "padStart (String_of_int (int (getDate now))) 2 (str ''0'') = two_digits (getDate now)"
    using assms by (simp add: String_of_int_def padStart_two)
  show ?thesis
    by (simp add: getTodayPlan_def today_dateStr_def YYYY_MM_DD_def y m d)
qed

theorem getTodayPlan_local_date_witness:
  "1000 \<le> getFullYear new_year \<and> getFullYear new_year \<le> 9999 \<and> getMonth new_year < 12 \<and>
   getDate new_year \<le> 31 \<and>
   getTodayPlan None offline browser new_year =
     getDailyPlan None offline browser (str ''2026-01-01'')"
proof -
  have "YYYY_MM_DD (nat (getFullYear new_year)) (getMonth new_year + 1) (getDate new_year) =
          str ''2026-01-01''"
    by (simp add: YYYY_MM_DD_def new_year_def four_digits_def two_digits_def digit_def str_def)
  with getTodayPlan_local_date [of new_year None offline browser]
  show ?thesis by (simp add: new_year_def)
qed

section \<open>Saving a server URL\<close>

lemma dropWhile_hd_id: "xs = [] \<or> \<not> P (hd xs) \<Longrightarrow> dropWhile P xs = xs"
  by (cases xs) auto

lemma strip_end_prefix: "\<exists>ys. t = rev (dropWhile P (rev t)) @ ys"
proof -
  have "rev (takeWhile P (rev t) @ dropWhile P (rev t)) = rev (rev t)"
    by (simp only: takeWhile_dropWhile_id)
  then have "rev (dropWhile P (rev t)) @ rev (takeWhile P (rev t)) = t"
    by (simp only: rev_append rev_rev_ident)
  then show ?thesis by metis
qed

lemma trim_idem [simp]: "trim (trim s) = trim s"
proof -
  define t where "t = dropWhile is_white_space s"
  define u where "u = rev (dropWhile is_white_space (rev t))"
  obtain ys where ys: "t = u @ ys" unfolding u_def using strip_end_prefix by blast
  have t: "t = [] \<or> \<not> is_white_space (hd t)"
    unfolding t_def using hd_dropWhile by blast
  have "u = [] \<or> \<not> is_white_space (hd u)"
  proof (cases u)
    case Nil then show ?thesis by simp
  next
    case (Cons a as)
    with ys have "hd t = hd u" "t \<noteq> []" by simp_all
    with t show ?thesis by simp
  qed
  then have "dropWhile is_white_space u = u" by (rule dropWhile_hd_id)
  moreover have "rev (dropWhile is_white_space (rev u)) = u"
    unfolding u_def by simp
  ultimately show ?thesis unfolding trim_def t_def [symmetric] u_def [symmetric] by simp
qed

lemma storeServerUrl_browser:
  assumes "window w = Some ls" "accessible ls" "\<not> quota_exceeded ls"
  shows "storeServerUrl w u = w\<lparr>window := Some (ls\<lparr>items := (items ls)(SERVER_URL_KEY \<mapsto> trim u)\<rparr>)\<rparr>"
  using assms by (simp add: storeServerUrl_def setItem_def)

lemma getStoredServerUrl_stored:
  assumes "window w = Some ls" "accessible ls" "items ls SERVER_URL_KEY = Some v"
  shows "getStoredServerUrl env w = (if trim v = [] then DEFAULT_SERVER_URL env else trim v)"
  using assms by (auto simp: getStoredServerUrl_def getItem_def trim_def)

lemma new_server_url_trimmed:
  assumes "trim u \<noteq> [] \<or> trim (DEFAULT_SERVER_URL env) = DEFAULT_SERVER_URL env"
  shows "trim (new_server_url env u) = new_server_url env u"
  using assms by (auto simp: new_server_url_def)

lemma DEFAULT_SERVER_URL_nonempty: "DEFAULT_SERVER_URL env \<noteq> []"
  by (simp add: DEFAULT_SERVER_URL_def str_def split: option.splits)

lemma new_server_url_nonempty: "new_server_url env u \<noteq> []"
  by (simp add: new_server_url_def DEFAULT_SERVER_URL_nonempty)

lemma saveSettings_target_update:
  assumes "serverUrl_opt updates = Some u"
  shows "saveSettings_target env w updates =
           (new_server_url env u, storeServerUrl w (new_server_url env u))"
  using assms by (simp add: saveSettings_target_def new_server_url_def Let_def)

lemma saveSettings_window:
  "window (snd (saveSettings env fetch w updates)) = window (snd (saveSettings_target env w updates))"
  by (cases "saveSettings_target env w updates")
     (auto simp: saveSettings_def Let_def split: fetch_outcome.splits sum.splits)

lemma saveSettings_sent:
  "sent (snd (saveSettings env fetch w updates)) =
     sent (snd (saveSettings_target env w updates)) @
       [saveSettings_request (fst (saveSettings_target env w updates)) updates]"
  by (cases "saveSettings_target env w updates")
     (auto simp: saveSettings_def Let_def split: fetch_outcome.splits sum.splits)

lemma storeServerUrl_sent [simp]: "sent (storeServerUrl w u) = sent w"
  by (simp add: storeServerUrl_def split: option.splits sum.splits)

lemma saveSettings_failed_cache:
  assumes "failed (fetch (saveSettings_request (fst (saveSettings_target env w updates)) updates))"
  shows "settingsCache (snd (saveSettings env fetch w updates)) = settingsCache w"
proof (cases "saveSettings_target env w updates")
  case (Pair targetUrl w0)
  then have "settingsCache w0 = settingsCache w"
    using saveSettings_target_cache [of env w updates] by simp
  with Pair assms show ?thesis
    by (auto simp: saveSettings_def failed_def Let_def split: fetch_outcome.splits)
qed

lemma backendUpdates_together:
  "map_of (backendUpdates updates) (str ''togetherApiKey'') = map_option JStr (togetherApiKey_opt updates)"
  by (simp add: backendUpdates_def str_def split: option.splits)

lemma backendUpdates_groq:
  "map_of (backendUpdates updates) (str ''groqApiKey'') = map_option JStr (groqApiKey_opt updates)"
  by (simp add: backendUpdates_def str_def split: option.splits)

lemma backendUpdates_keys:
  "fst ` set (backendUpdates updates) \<subseteq> {str ''togetherApiKey'', str ''groqApiKey''}"
  by (auto simp: backendUpdates_def split: option.splits)

lemma backendUpdates_no_serverUrl:
  "map_of (backendUpdates updates) (str ''serverUrl'') = None"
  by (simp add: backendUpdates_def str_def split: option.splits)

lemma trim_example: "trim (str '' http://x '') = str ''http://x''"
  by (simp add: trim_def str_def is_white_space_def)

lemma new_server_url_example: "new_server_url None (str '' http://x '') = str ''http://x''"
  by (simp add: new_server_url_def trim_example) (simp add: str_def)

text \<open>
  C4, as amended.  In a browser whose local storage takes the write, and with a default URL
  that has no white space around it, a \<open>saveSettings\<close> whose update has a
  \<open>serverUrl\<close> stores the trimmed value (the default if that is empty) under the
  storage key, sends its one request by POST to that URL followed by \<open>/api/settings\<close>
  with a body that holds exactly the \<open>togetherApiKey\<close> and \<open>groqApiKey\<close> of the
  update that are present and no \<open>serverUrl\<close>, and \<open>getStoredServerUrl\<close> afterwards
  returns the stored value.  This holds whatever the backend answers.
\<close>

theorem saveSettings_persists_serverUrl:
  assumes "window w = Some ls" and "accessible ls" and "\<not> quota_exceeded ls"
    and "serverUrl_opt updates = Some u"
    and "trim u \<noteq> [] \<or> trim (DEFAULT_SERVER_URL env) = DEFAULT_SERVER_URL env"
  shows "window (snd (saveSettings env fetch w updates)) =
           Some (ls\<lparr>items := (items ls)(SERVER_URL_KEY \<mapsto> new_server_url env u)\<rparr>) \<and>
         (\<exists>kvs. sent (snd (saveSettings env fetch w updates)) =
              sent w @ [\<lparr>url = new_server_url env u @ str ''/api/settings'', http_method = POST,
                         cache = None,
                         headers = [(str ''Content-Type'', str ''application/json'')],
                         body = Some (JObj kvs)\<rparr>] \<and>
            map_of kvs (str ''togetherApiKey'') = map_option JStr (togetherApiKey_opt updates) \<and>
            map_of kvs (str ''groqApiKey'') = map_option JStr (groqApiKey_opt updates) \<and>
            map_of kvs (str ''serverUrl'') = None \<and>
            fst ` set kvs \<subseteq> {str ''togetherApiKey'', str ''groqApiKey''}) \<and>
         getStoredServerUrl env (snd (saveSettings env fetch w updates)) = new_server_url env u"
proof -
  let ?t = "new_server_url env u"
  let ?ls = "ls\<lparr>items := (items ls)(SERVER_URL_KEY \<mapsto> ?t)\<rparr>"
  have tr: "trim ?t = ?t" using assms(5) by (rule new_server_url_trimmed)
  have tgt: "saveSettings_target env w updates = (?t, w\<lparr>window := Some ?ls\<rparr>)"
    using assms(1-4) tr by (simp add: saveSettings_target_update storeServerUrl_browser)
  have win: "window (snd (saveSettings env fetch w updates)) = Some ?ls"
    by (simp add: saveSettings_window tgt)
  have snt: "sent (snd (saveSettings env fetch w updates)) =
               sent w @ [saveSettings_request ?t updates]"
    by (simp add: saveSettings_sent tgt)
  have res: "getStoredServerUrl env (snd (saveSettings env fetch w updates)) = ?t"
    using win assms(2) tr new_server_url_nonempty [of env u]
    by (simp add: getStoredServerUrl_stored [where ls="?ls" and v="?t"])
  from snt have "\<exists>kvs. sent (snd (saveSettings env fetch w updates)) =
              sent w @ [\<lparr>url = ?t @ str ''/api/settings'', http_method = POST,
                         cache = None,
                         headers = [(str ''Content-Type'', str ''application/json'')],
                         body = Some (JObj kvs)\<rparr>] \<and>
            map_of kvs (str ''togetherApiKey'') = map_option JStr (togetherApiKey_opt updates) \<and>
            map_of kvs (str ''groqApiKey'') = map_option JStr (groqApiKey_opt updates) \<and>
            map_of kvs (str ''serverUrl'') = None \<and>
            fst ` set kvs \<subseteq> {str ''togetherApiKey'', str ''groqApiKey''}"
    using backendUpdates_together backendUpdates_groq backendUpdates_no_serverUrl
      backendUpdates_keys
    by (intro exI [of _ "backendUpdates updates"]) (simp add: saveSettings_request_def)
  with win res show ?thesis by blast
qed


theorem saveSettings_persists_serverUrl_witness:
  "window browser = Some empty_storage \<and> accessible empty_storage \<and>
   \<not> quota_exceeded empty_storage \<and> serverUrl_opt url_change = Some (str '' http://x '') \<and>
   trim (str '' http://x '') \<noteq> [] \<and>
   map url (sent (snd (saveSettings None offline browser url_change))) =
     [str ''http://x'' @ str ''/api/settings''] \<and>
   getStoredServerUrl None (snd (saveSettings None offline browser url_change)) = str ''http://x''"
proof -
  have h: "window browser = Some empty_storage" "accessible empty_storage"
    "\<not> quota_exceeded empty_storage" "serverUrl_opt url_change = Some (str '' http://x '')"
    by (simp_all add: browser_def empty_storage_def url_change_def)
  have t: "trim (str '' http://x '') \<noteq> []"
    by (simp add: trim_example) (simp add: str_def)
  have s: "sent browser = []" by (simp add: browser_def)
  from saveSettings_persists_serverUrl [where env=None and fetch=offline, OF h disjI1 [OF t]]
  have "map url (sent (snd (saveSettings None offline browser url_change))) =
          [str ''http://x'' @ str ''/api/settings'']"
    and "getStoredServerUrl None (snd (saveSettings None offline browser url_change)) = str ''http://x''"
    by (auto simp: new_server_url_example s)
  with h t show ?thesis by simp
qed

text \<open>
  On the server side (\<open>typeof window === 'undefined'\<close>) \<open>storeServerUrl\<close> returns at
  once: nothing is stored, and the URL resolved after the save is the default.
\<close>

theorem saveSettings_server_side_counterexample:
  "serverUrl_opt url_change = Some (str '' http://x '') \<and>
   trim (str '' http://x '') = str ''http://x'' \<and>
   map url (sent (snd (saveSettings None (reply saved_json) server_side url_change))) =
     [str ''http://x'' @ str ''/api/settings''] \<and>
   window (snd (saveSettings None (reply saved_json) server_side url_change)) = None \<and>
   getStoredServerUrl None (snd (saveSettings None (reply saved_json) server_side url_change)) =
     str ''http://localhost:8000'' \<and>
   str ''http://localhost:8000'' \<noteq> str ''http://x''"
proof -
  have t: "saveSettings_target None server_side url_change = (str ''http://x'', server_side)"
    by (simp add: saveSettings_target_def url_change_def Let_def storeServerUrl_def
        server_side_def trim_example)
       (simp add: str_def)
  have w: "window (snd (saveSettings None (reply saved_json) server_side url_change)) = None"
    by (simp add: saveSettings_window t) (simp add: server_side_def)
  then have g: "getStoredServerUrl None
      (snd (saveSettings None (reply saved_json) server_side url_change)) =
     str ''http://localhost:8000''"
    by (simp add: getStoredServerUrl_def DEFAULT_SERVER_URL_def)
  have r: "map url (sent (snd (saveSettings None (reply saved_json) server_side url_change))) =
     [str ''http://x'' @ str ''/api/settings'']"
    by (simp add: saveSettings_sent t) (simp add: server_side_def saveSettings_request_def)
  from w g r show ?thesis
    by (simp add: trim_example url_change_def) (simp add: str_def)
qed

text \<open>
  C8, as amended.  In a browser whose local storage takes the write, and with a default URL
  that has no white space around it: when the update has a \<open>serverUrl\<close> and the request
  fails, \<open>saveSettings\<close> throws, local storage holds the new URL all the same,
  \<open>getStoredServerUrl\<close> returns it, and the settings cache is as before the call.
\<close>

theorem saveSettings_failure_keeps_new_url:
  assumes "window w = Some ls" and "accessible ls" and "\<not> quota_exceeded ls"
    and "serverUrl_opt updates = Some u"
    and "trim u \<noteq> [] \<or> trim (DEFAULT_SERVER_URL env) = DEFAULT_SERVER_URL env"
    and "failed (fetch (saveSettings_request (new_server_url env u) updates))"
  shows "isl (fst (saveSettings env fetch w updates)) \<and>
         window (snd (saveSettings env fetch w updates)) =
           Some (ls\<lparr>items := (items ls)(SERVER_URL_KEY \<mapsto> new_server_url env u)\<rparr>) \<and>
         getStoredServerUrl env (snd (saveSettings env fetch w updates)) = new_server_url env u \<and>
         getCachedSettings (snd (saveSettings env fetch w updates)) = getCachedSettings w"
proof -
  let ?t = "new_server_url env u"
  let ?ls = "ls\<lparr>items := (items ls)(SERVER_URL_KEY \<mapsto> ?t)\<rparr>"
  have tr: "trim ?t = ?t" using assms(5) by (rule new_server_url_trimmed)
  have tgt: "saveSettings_target env w updates = (?t, w\<lparr>window := Some ?ls\<rparr>)"
    using assms(1-4) tr by (simp add: saveSettings_target_update storeServerUrl_browser)
  have f: "failed (fetch (saveSettings_request (fst (saveSettings_target env w updates)) updates))"
    using assms(6) by (simp add: tgt)
  have raised: "isl (fst (saveSettings env fetch w updates))"
    using f tgt by (auto simp: saveSettings_def failed_def Let_def split: fetch_outcome.splits)
  have win: "window (snd (saveSettings env fetch w updates)) = Some ?ls"
    by (simp add: saveSettings_window tgt)
  have res: "getStoredServerUrl env (snd (saveSettings env fetch w updates)) = ?t"
    using win assms(2) tr new_server_url_nonempty [of env u]
    by (simp add: getStoredServerUrl_stored [where ls="?ls" and v="?t"])
  have "getCachedSettings (snd (saveSettings env fetch w updates)) = getCachedSettings w"
    using f saveSettings_failed_cache [where fetch=fetch and env=env and w=w and updates=updates]
    by (simp add: getCachedSettings_def)
  with raised win res show ?thesis by blast
qed

theorem saveSettings_failure_keeps_new_url_witness:
  "window browser = Some empty_storage \<and> accessible empty_storage \<and>
   \<not> quota_exceeded empty_storage \<and> serverUrl_opt url_change = Some (str '' http://x '') \<and>
   trim (str '' http://x '') \<noteq> [] \<and>
   failed (unavailable (saveSettings_request (new_server_url None (str '' http://x '')) url_change)) \<and>
   isl (fst (saveSettings None unavailable browser url_change)) \<and>
   getStoredServerUrl None (snd (saveSettings None unavailable browser url_change)) = str ''http://x'' \<and>
   getCachedSettings (snd (saveSettings None unavailable browser url_change)) = None"
proof -
  have h: "window browser = Some empty_storage" "accessible empty_storage"
    "\<not> quota_exceeded empty_storage" "serverUrl_opt url_change = Some (str '' http://x '')"
    by (simp_all add: browser_def empty_storage_def url_change_def)
  have t: "trim (str '' http://x '') \<noteq> []"
    by (simp add: trim_example) (simp add: str_def)
  have f: "failed (unavailable (saveSettings_request (new_server_url None (str '' http://x '')) url_change))"
    by (simp add: failed_def unavailable_def)
  have c: "getCachedSettings browser = None" by (simp add: getCachedSettings_def browser_def)
  from saveSettings_failure_keeps_new_url [where env=None and fetch=unavailable,
      OF h disjI1 [OF t] f]
  show ?thesis using h t f c by (simp add: new_server_url_example)
qed

text \<open>
  When \<open>setItem\<close> throws, \<open>storeServerUrl\<close> catches the error: after the failed
  save the URL resolved is still the old one.
\<close>

theorem saveSettings_quota_counterexample:
  "serverUrl_opt url_change = Some (str '' http://x '') \<and>
   trim (str '' http://x '') = str ''http://x'' \<and>
   fst (saveSettings None offline full_browser url_change) = Inl TypeError \<and>
   window (snd (saveSettings None offline full_browser url_change)) = window full_browser \<and>
   getStoredServerUrl None (snd (saveSettings None offline full_browser url_change)) =
     str ''http://localhost:8000'' \<and>
   str ''http://localhost:8000'' \<noteq> str ''http://x''"
proof -
  have w: "window (snd (saveSettings None offline full_browser url_change)) = window full_browser"
    by (simp add: saveSettings_window saveSettings_target_def url_change_def Let_def
        storeServerUrl_def full_browser_def setItem_def empty_storage_def)
  then have g: "getStoredServerUrl None (snd (saveSettings None offline full_browser url_change)) =
     str ''http://localhost:8000''"
    by (simp add: getStoredServerUrl_def DEFAULT_SERVER_URL_def full_browser_def getItem_def
        empty_storage_def)
  have r: "fst (saveSettings None offline full_browser url_change) = Inl TypeError"
    by (cases "saveSettings_target None full_browser url_change")
       (simp add: saveSettings_def offline_def Let_def)
  from w g r show ?thesis
    by (simp add: trim_example url_change_def) (simp add: str_def)
qed

section \<open>Where the cached server URL comes from\<close>

lemma loadSettings_try_success:
  assumes "loadSettings_try env fetch w = (Inr s, w')"
  shows "settingsCache w' = Some s \<and> serverUrl s = getStoredServerUrl env w"
  using assms
  by (auto simp: loadSettings_try_def Let_def
      split: fetch_outcome.splits sum.splits if_splits)

lemma saveSettings_target_fst:
  "fst (saveSettings_target env w updates) =
     (case serverUrl_opt updates of
        None \<Rightarrow> getStoredServerUrl env w
      | Some u \<Rightarrow> new_server_url env u)"
  by (simp add: saveSettings_target_def new_server_url_def Let_def split: option.splits)

lemma saveSettings_success:
  assumes "saveSettings env fetch w updates = (Inr s, w')"
  shows "settingsCache w' = Some s \<and> serverUrl s = fst (saveSettings_target env w updates)"
  using assms
  by (cases "saveSettings_target env w updates")
     (auto simp: saveSettings_def Let_def split: fetch_outcome.splits sum.splits if_splits)

lemma run_example:
  "run None browser [SaveSettings offline url_change, ClearSettingsCache] =
     \<lparr>window = Some (empty_storage\<lparr>items := (items empty_storage)(SERVER_URL_KEY \<mapsto> str ''http://x'')\<rparr>),
      settingsCache = None,
      sent = [saveSettings_request (str ''http://x'') url_change]\<rparr>"
  by (simp add: run_def saveSettings_def saveSettings_target_def url_change_def
      storeServerUrl_def setItem_def browser_def empty_storage_def offline_def issue_def
      clearSettingsCache_def Let_def trim_def is_white_space_def str_def)

text \<open>
  C1, as amended.  After any sequence of operations, a \<open>loadSettings\<close> whose
  \<open>try\<close> block completes, and a \<open>saveSettings\<close> that returns, cache and return
  a Settings whose \<open>serverUrl\<close> is the URL resolved from local storage (or the default),
  or for a save with a \<open>serverUrl\<close> update the trimmed new value (or the default).
  The backend's reply has no part in it: the value is this one also when the reply
  carries another \<open>serverUrl\<close>.
\<close>

theorem cached_serverUrl_is_local:
  "(loadSettings_try env fetch (run env w0 ops) = (Inr s, w') \<longrightarrow>
      loadSettings env fetch (run env w0 ops) = (Inr s, w') \<and>
      getCachedSettings w' = Some s \<and>
      serverUrl s = getStoredServerUrl env (run env w0 ops)) \<and>
   (saveSettings env fetch (run env w0 ops) updates = (Inr s, w') \<longrightarrow>
      getCachedSettings w' = Some s \<and>
      serverUrl s =
        (case serverUrl_opt updates of
           None \<Rightarrow> getStoredServerUrl env (run env w0 ops)
         | Some u \<Rightarrow> new_server_url env u))"
  using loadSettings_try_success [of env fetch "run env w0 ops" s w']
    saveSettings_success [of env fetch "run env w0 ops" updates s w']
  by (simp add: loadSettings_def getCachedSettings_def saveSettings_target_fst)

theorem cached_serverUrl_is_local_witness:
  "loadSettings_try None (reply other_json)
      (run None browser [SaveSettings offline url_change, ClearSettingsCache]) =
     (Inr \<lparr>togetherApiKey = JStr (str ''tk''), groqApiKey = JStr [], serverUrl = str ''http://x''\<rparr>,
      \<lparr>window = Some (empty_storage\<lparr>items := (items empty_storage)(SERVER_URL_KEY \<mapsto> str ''http://x'')\<rparr>),
       settingsCache = Some \<lparr>togetherApiKey = JStr (str ''tk''), groqApiKey = JStr [],
                              serverUrl = str ''http://x''\<rparr>,
       sent = [saveSettings_request (str ''http://x'') url_change,
               loadSettings_request (str ''http://x'')]\<rparr>) \<and>
   get_prop other_json (str ''serverUrl'') = Inr (JStr (str ''http://evil.example'')) \<and>
   getStoredServerUrl None (run None browser [SaveSettings offline url_change, ClearSettingsCache]) =
     str ''http://x'' \<and>
   saveSettings None (reply saved_json) (run None browser []) key_update =
     (Inr \<lparr>togetherApiKey = JStr (str ''tk''), groqApiKey = JStr (str ''gk''),
            serverUrl = str ''http://localhost:8000''\<rparr>,
      \<lparr>window = Some empty_storage,
       settingsCache = Some \<lparr>togetherApiKey = JStr (str ''tk''), groqApiKey = JStr (str ''gk''),
                              serverUrl = str ''http://localhost:8000''\<rparr>,
       sent = [saveSettings_request (str ''http://localhost:8000'') key_update]\<rparr>) \<and>
   getStoredServerUrl None (run None browser []) = str ''http://localhost:8000''"
proof -
  let ?w = "run None browser [SaveSettings offline url_change, ClearSettingsCache]"
  let ?s = "\<lparr>togetherApiKey = JStr (str ''tk''), groqApiKey = JStr [], serverUrl = str ''http://x''\<rparr>"
  let ?w' = "\<lparr>window = Some (empty_storage\<lparr>items := (items empty_storage)(SERVER_URL_KEY \<mapsto> str ''http://x'')\<rparr>),
       settingsCache = Some ?s,
       sent = [saveSettings_request (str ''http://x'') url_change,
               loadSettings_request (str ''http://x'')]\<rparr>"
  let ?s2 = "\<lparr>togetherApiKey = JStr (str ''tk''), groqApiKey = JStr (str ''gk''),
            serverUrl = str ''http://localhost:8000''\<rparr>"
  let ?w2 = "\<lparr>window = Some empty_storage, settingsCache = Some ?s2,
       sent = [saveSettings_request (str ''http://localhost:8000'') key_update]\<rparr>"
  have g: "getStoredServerUrl None ?w = str ''http://x''"
    by (simp add: run_example)
       (simp add: getStoredServerUrl_def getItem_def empty_storage_def trim_def
          is_white_space_def str_def)
  have l: "loadSettings_try None (reply other_json) ?w = (Inr ?s, ?w')"
    unfolding loadSettings_try_def g
    by (simp add: run_example)
       (simp add: reply_def other_json_def js_or_def issue_def Let_def str_def)
  have g2: "getStoredServerUrl None (run None browser []) = str ''http://localhost:8000''"
    by (simp add: run_def getStoredServerUrl_def getItem_def browser_def empty_storage_def
        DEFAULT_SERVER_URL_def)
  have t2: "saveSettings_target None (run None browser []) key_update =
              (str ''http://localhost:8000'', browser)"
    using g2 by (simp add: saveSettings_target_def key_update_def run_def)
  have s: "saveSettings None (reply saved_json) (run None browser []) key_update = (Inr ?s2, ?w2)"
    unfolding saveSettings_def t2
    by (simp add: reply_def saved_json_def merged_key_def backendUpdates_def key_update_def
        cached_field_def js_or_def issue_def browser_def Let_def str_def)
  have p: "get_prop other_json (str ''serverUrl'') = Inr (JStr (str ''http://evil.example''))"
    by (simp add: other_json_def str_def)
  from cached_serverUrl_is_local [of None "reply other_json" browser
      "[SaveSettings offline url_change, ClearSettingsCache]" ?s ?w' key_update]
    cached_serverUrl_is_local [of None "reply saved_json" browser "[]" ?s2 ?w2 key_update]
    l s g g2 p
  show ?thesis by simp
qed

text \<open>
  The cached \<open>serverUrl\<close> can be equal to a \<open>serverUrl\<close> field of the reply: a
  backend that reports the address it is reached at.
\<close>

theorem backend_echo_counterexample:
  "map_sum id serverUrl (fst (loadSettings None (reply echo_json) browser)) =
     Inr (str ''http://localhost:8000'') \<and>
   map_option serverUrl (getCachedSettings (snd (loadSettings None (reply echo_json) browser))) =
     Some (str ''http://localhost:8000'') \<and>
   get_prop echo_json (str ''serverUrl'') = Inr (JStr (str ''http://localhost:8000''))"
  by (simp add: loadSettings_def loadSettings_try_def Let_def reply_def echo_json_def
      getStoredServerUrl_def browser_def empty_storage_def getItem_def DEFAULT_SERVER_URL_def
      getCachedSettings_def js_or_def str_def)

section \<open>The API keys after a save\<close>

lemma get_prop_chain:
  assumes "get_prop result (str ''settings'') = Inr st" and "get_prop_opt st k = Inr v"
  shows "v = reply_key result k"
  using assms
  by (cases result; cases st)
     (auto simp: reply_key_def split: option.splits jsval.splits)

lemma merged_key_together_unfold:
  "merged_key result (str ''togetherApiKey'') updates cached =
     (case get_prop result (str ''settings'') of
        Inl e \<Rightarrow> Inl e
      | Inr st \<Rightarrow>
          (case get_prop_opt st (str ''togetherApiKey'') of
             Inl e \<Rightarrow> Inl e
           | Inr x \<Rightarrow>
               Inr (js_or (js_or (js_or x (case togetherApiKey_opt updates of
                      None \<Rightarrow> JUndefined | Some y \<Rightarrow> JStr y)) cached) (JStr []))))"
  by (simp add: merged_key_def backendUpdates_together split: option.splits sum.splits)

lemma merged_key_groq_unfold:
  "merged_key result (str ''groqApiKey'') updates cached =
     (case get_prop result (str ''settings'') of
        Inl e \<Rightarrow> Inl e
      | Inr st \<Rightarrow>
          (case get_prop_opt st (str ''groqApiKey'') of
             Inl e \<Rightarrow> Inl e
           | Inr x \<Rightarrow>
               Inr (js_or (js_or (js_or x (case groqApiKey_opt updates of
                      None \<Rightarrow> JUndefined | Some y \<Rightarrow> JStr y)) cached) (JStr []))))"
  by (simp add: merged_key_def backendUpdates_groq split: option.splits sum.splits)

lemma js_or_chain:
  assumes "optional_string a" and "optional_string c"
  shows "js_or (js_or (js_or a (case u of None \<Rightarrow> JUndefined | Some x \<Rightarrow> JStr x)) c) (JStr []) =
           JStr (key_chain (string_of a) u (string_of c))"
  using assms
  by (cases a; cases c; cases u) (auto simp: js_or_def key_chain_def or_else_def)

lemma merged_key_together:
  assumes "merged_key result (str ''togetherApiKey'') updates cached = Inr v"
    and "optional_string (reply_key result (str ''togetherApiKey''))"
    and "optional_string cached"
  shows "v = JStr (key_chain (string_of (reply_key result (str ''togetherApiKey'')))
                     (togetherApiKey_opt updates) (string_of cached))"
proof -
  from assms(1) obtain st x where
    st: "get_prop result (str ''settings'') = Inr st"
    and x: "get_prop_opt st (str ''togetherApiKey'') = Inr x"
    and v: "v = js_or (js_or (js_or x (case togetherApiKey_opt updates of None \<Rightarrow> JUndefined
                | Some y \<Rightarrow> JStr y)) cached) (JStr [])"
    by (auto simp: merged_key_together_unfold split: sum.splits)
  from get_prop_chain [OF st x] have "x = reply_key result (str ''togetherApiKey'')" .
  with v assms(2,3) show ?thesis by (simp add: js_or_chain)
qed

lemma merged_key_groq:
  assumes "merged_key result (str ''groqApiKey'') updates cached = Inr v"
    and "optional_string (reply_key result (str ''groqApiKey''))"
    and "optional_string cached"
  shows "v = JStr (key_chain (string_of (reply_key result (str ''groqApiKey'')))
                     (groqApiKey_opt updates) (string_of cached))"
proof -
  from assms(1) obtain st x where
    st: "get_prop result (str ''settings'') = Inr st"
    and x: "get_prop_opt st (str ''groqApiKey'') = Inr x"
    and v: "v = js_or (js_or (js_or x (case groqApiKey_opt updates of None \<Rightarrow> JUndefined
                | Some y \<Rightarrow> JStr y)) cached) (JStr [])"
    by (auto simp: merged_key_groq_unfold split: sum.splits)
  from get_prop_chain [OF st x] have "x = reply_key result (str ''groqApiKey'')" .
  with v assms(2,3) show ?thesis by (simp add: js_or_chain)
qed

lemma saveSettings_success_keys:
  assumes "saveSettings env fetch w updates = (Inr s, w')"
    and "fetch (saveSettings_request (fst (saveSettings_target env w updates)) updates) = Response r"
    and "body_json r = Inr result"
  shows "merged_key result (str ''togetherApiKey'') updates
           (cached_field (settingsCache w) togetherApiKey) = Inr (togetherApiKey s) \<and>
         merged_key result (str ''groqApiKey'') updates
           (cached_field (settingsCache w) groqApiKey) = Inr (groqApiKey s)"
proof (cases "saveSettings_target env w updates")
  case (Pair targetUrl w0)
  then have "settingsCache w0 = settingsCache w"
    using saveSettings_target_cache [of env w updates] by simp
  with Pair assms show ?thesis
    by (auto simp: saveSettings_def Let_def split: sum.splits if_splits)
qed

text \<open>
  C10.  After a successful \<open>saveSettings\<close>, each API key of the cached and returned
  Settings follows the fallback chain: the value under \<open>settings\<close> in the backend's
  reply if present and non-empty, otherwise the value submitted in the update if present
  and non-empty, otherwise the value cached before if there was a cache and the value was
  non-empty, otherwise the empty string.  The values are strings, as the Settings
  interface declares them: a key of the reply or of the cache is a string or missing.
\<close>

theorem saveSettings_key_fallback_chain:
  assumes "saveSettings env fetch w updates = (Inr s, w')"
    and "fetch (saveSettings_request (fst (saveSettings_target env w updates)) updates) = Response r"
    and "body_json r = Inr result"
    and "optional_string (reply_key result (str ''togetherApiKey''))"
    and "optional_string (reply_key result (str ''groqApiKey''))"
    and "optional_string (cached_field (getCachedSettings w) togetherApiKey)"
    and "optional_string (cached_field (getCachedSettings w) groqApiKey)"
  shows "getCachedSettings w' = Some s \<and>
         togetherApiKey s =
           JStr (key_chain (string_of (reply_key result (str ''togetherApiKey'')))
                   (togetherApiKey_opt updates)
                   (string_of (cached_field (getCachedSettings w) togetherApiKey))) \<and>
         groqApiKey s =
           JStr (key_chain (string_of (reply_key result (str ''groqApiKey'')))
                   (groqApiKey_opt updates)
                   (string_of (cached_field (getCachedSettings w) groqApiKey)))"
proof -
  from saveSettings_success_keys [OF assms(1-3)] have
    t: "merged_key result (str ''togetherApiKey'') updates
           (cached_field (settingsCache w) togetherApiKey) = Inr (togetherApiKey s)"
    and g: "merged_key result (str ''groqApiKey'') updates
           (cached_field (settingsCache w) groqApiKey) = Inr (groqApiKey s)"
    by simp_all
  have c: "getCachedSettings w' = Some s"
    using saveSettings_success [OF assms(1)] by (simp add: getCachedSettings_def)
  from merged_key_together [OF t] merged_key_groq [OF g] assms(4-7) c
  show ?thesis by (simp add: getCachedSettings_def)
qed


theorem saveSettings_key_fallback_chain_witness:
  "saveSettings None (reply saved_json) remembering no_update =
     (Inr \<lparr>togetherApiKey = JStr (str ''tk''), groqApiKey = JStr (str ''og''),
            serverUrl = str ''http://localhost:8000''\<rparr>,
      \<lparr>window = Some empty_storage,
       settingsCache = Some \<lparr>togetherApiKey = JStr (str ''tk''), groqApiKey = JStr (str ''og''),
                              serverUrl = str ''http://localhost:8000''\<rparr>,
       sent = [saveSettings_request (str ''http://localhost:8000'') no_update]\<rparr>) \<and>
   body_json \<lparr>ok = True, status = 200, statusText = str ''OK'',
              body_json = Inr saved_json, body_text = Inl TypeError\<rparr> = Inr saved_json \<and>
   reply_key saved_json (str ''togetherApiKey'') = JStr (str ''tk'') \<and>
   reply_key saved_json (str ''groqApiKey'') = JUndefined \<and>
   cached_field (getCachedSettings remembering) togetherApiKey = JStr (str ''old'') \<and>
   cached_field (getCachedSettings remembering) groqApiKey = JStr (str ''og'') \<and>
   key_chain (Some (str ''tk'')) None (Some (str ''old'')) = str ''tk'' \<and>
   key_chain None None (Some (str ''og'')) = str ''og''"
proof -
  let ?s = "\<lparr>togetherApiKey = JStr (str ''tk''), groqApiKey = JStr (str ''og''),
            serverUrl = str ''http://localhost:8000''\<rparr>"
  let ?w' = "\<lparr>window = Some empty_storage, settingsCache = Some ?s,
       sent = [saveSettings_request (str ''http://localhost:8000'') no_update]\<rparr>"
  let ?r = "\<lparr>ok = True, status = 200, statusText = str ''OK'',
              body_json = Inr saved_json, body_text = Inl TypeError\<rparr>"
  have g: "getStoredServerUrl None remembering = str ''http://localhost:8000''"
    by (simp add: getStoredServerUrl_def getItem_def remembering_def empty_storage_def
        DEFAULT_SERVER_URL_def)
  have t: "saveSettings_target None remembering no_update =
             (str ''http://localhost:8000'', remembering)"
    using g by (simp add: saveSettings_target_def no_update_def)
  have s: "saveSettings None (reply saved_json) remembering no_update = (Inr ?s, ?w')"
    unfolding saveSettings_def t
    by (simp add: reply_def saved_json_def merged_key_def backendUpdates_def no_update_def
        cached_field_def js_or_def issue_def remembering_def Let_def str_def)
  have f: "reply saved_json (saveSettings_request
             (fst (saveSettings_target None remembering no_update)) no_update) = Response ?r"
    by (simp add: reply_def)
  have b: "body_json ?r = Inr saved_json" by simp
  have k: "reply_key saved_json (str ''togetherApiKey'') = JStr (str ''tk'')"
    "reply_key saved_json (str ''groqApiKey'') = JUndefined"
    by (simp_all add: reply_key_def saved_json_def str_def)
  have c: "cached_field (getCachedSettings remembering) togetherApiKey = JStr (str ''old'')"
    "cached_field (getCachedSettings remembering) groqApiKey = JStr (str ''og'')"
    by (simp_all add: cached_field_def getCachedSettings_def remembering_def)
  have o: "optional_string (reply_key saved_json (str ''togetherApiKey''))"
    "optional_string (reply_key saved_json (str ''groqApiKey''))"
    "optional_string (cached_field (getCachedSettings remembering) togetherApiKey)"
    "optional_string (cached_field (getCachedSettings remembering) groqApiKey)"
    by (simp_all add: k c)
  from saveSettings_key_fallback_chain [OF s f b o] s k c
  show ?thesis by (simp add: no_update_def)
qed

end
